theory Spec2Isabelle
  imports Complex_Main
begin

section \<open>Values shared by the model\<close>

text \<open>
  A Python number as \<open>sahi/prediction.py\<close> sees it. The only thing the code asks of a
  number's type is whether it was defined by numpy (\<open>type(score).__module__ == "numpy"\<close>),
  so a number is a finite value tagged with its origin: \<open>Plain x\<close> is a built-in
  \<open>int\<close> or \<open>float\<close> of value \<open>x\<close>, \<open>Numpy x\<close> is a numpy scalar (\<open>np.float32\<close>,
  \<open>np.float64\<close>, \<open>np.int64\<close>, ...) of value \<open>x\<close>. Every finite int and float is a real
  number, and Python compares numbers by value. Infinities and NaN are outside the model.
\<close>

datatype number = Plain real | Numpy real

fun num_val :: "number \<Rightarrow> real" where
  "num_val (Plain x) = x"
| "num_val (Numpy x) = x"

fun module_is_numpy :: "number \<Rightarrow> bool" where
  "module_is_numpy (Plain x) = False"
| "module_is_numpy (Numpy x) = True"

text \<open>\<open>copy.deepcopy\<close> of an immutable scalar is a scalar of the same type and value.\<close>

definition deepcopy :: "number \<Rightarrow> number" where
  "deepcopy v = v"

text \<open>\<open>.tolist()\<close> of a numpy scalar is the built-in Python scalar of the same value.\<close>

fun tolist :: "number \<Rightarrow> number" where
  "tolist (Numpy x) = Plain x"
| "tolist (Plain x) = Plain x"

text \<open>Python's \<open>a > b\<close> on two numbers.\<close>

definition py_gt :: "number \<Rightarrow> number \<Rightarrow> bool" where
  "py_gt a b = (num_val b < num_val a)"

text \<open>
  Everything that can be raised while the code of \<open>prediction.py\<close> runs.
  \<open>ValueError\<close>: numpy's reduction of a zero-size array, or an array of the wrong rank.
  \<open>ShapeMismatch\<close>: stacking tensors of different shapes. \<open>EmptyStack\<close>: stacking no
  tensor at all. \<open>MalformedRegion\<close>: a box, offset or size list of the wrong length
  handed to the region component. \<open>DanglingReference\<close>: a reference to no object.
  \<open>AttributeError\<close>: an attribute read from an object that does not have it.
\<close>

datatype error =
  ValueError | ShapeMismatch | EmptyStack | MalformedRegion | DanglingReference | AttributeError

section \<open>PredictionScore\<close>

record PredictionScore =
  score :: number

text \<open>
  \<^verbatim>\<open>
  def __init__(self, score: float):
      if type(score).__module__ == "numpy":
          score = copy.deepcopy(score).tolist()
      self.score = score
  \<close>
\<close>

definition PredictionScore_init :: "number \<Rightarrow> PredictionScore" where
  "PredictionScore_init score0 =
     (let score1 = (if module_is_numpy score0 then tolist (deepcopy score0) else score0)
      in \<lparr>score = score1\<rparr>)"

text \<open>
  \<^verbatim>\<open>
  def is_greater_than_threshold(self, threshold):
      return self.score > threshold
  \<close>
\<close>

definition is_greater_than_threshold :: "PredictionScore \<Rightarrow> number \<Rightarrow> bool" where
  "is_greater_than_threshold self threshold = py_gt (score self) threshold"

section \<open>Arrays and tensors\<close>

text \<open>
  A numpy array or a torch tensor: its shape and its elements in row-major order.
  Both libraries keep \<open>length (data a) = prod_list (shape a)\<close>.
\<close>

record 'a ndarray =
  shape :: "nat list"
  data :: "'a list"

definition ndarray_ok :: "'a ndarray \<Rightarrow> bool" where
  "ndarray_ok a = (length (data a) = prod_list (shape a))"

text \<open>\<open>np.max(image)\<close>: the largest element; a zero-size array raises \<open>ValueError\<close>.\<close>

definition np_max :: "('a::linorder) ndarray \<Rightarrow> error + 'a" where
  "np_max a = (case data a of [] \<Rightarrow> Inl ValueError | x # xs \<Rightarrow> Inr (fold max xs x))"

text \<open>
  \<open>image / m\<close>: numpy divides every element by the scalar. The division of two pixel
  values is the parameter \<open>dv\<close> (numpy's true division, which rounds to a float and
  yields \<open>inf\<close> or \<open>nan\<close> instead of raising when \<open>m\<close> is zero).
\<close>

definition true_divide :: "('a \<Rightarrow> 'a \<Rightarrow> 'b) \<Rightarrow> 'a ndarray \<Rightarrow> 'a \<Rightarrow> 'b ndarray" where
  "true_divide dv img m = \<lparr>shape = shape img, data = map (\<lambda>p. dv p m) (data img)\<rparr>"

text \<open>
  The elements of a height x width x channel array, listed channel by channel:
  position \<open>(k, y, x)\<close> of the result holds position \<open>(y, x, k)\<close> of the argument.
\<close>

definition channel_first :: "nat \<Rightarrow> nat \<Rightarrow> nat \<Rightarrow> 'a list \<Rightarrow> 'a list" where
  "channel_first h w c xs =
     concat (map (\<lambda>k. concat (map (\<lambda>y. map (\<lambda>x. xs ! ((y * w + x) * c + k)) [0..<w]) [0..<h])) [0..<c])"

text \<open>
  Modelled from the spec: \<open>sahi.utils.torch.to_float_tensor\<close> is not among the sources.
  Section 4.3 (Conversion): each normalized image is converted into the numeric-tensor
  representation expected by the detector, channel-first layout. A raw image is
  height x width x channel; an array of any other rank has no such layout.
\<close>

definition to_float_tensor :: "'a ndarray \<Rightarrow> error + 'a ndarray" where
  "to_float_tensor img =
     (case shape img of
        [h, w, c] \<Rightarrow> Inr \<lparr>shape = [c, h, w], data = channel_first h w c (data img)\<rparr>
      | _ \<Rightarrow> Inl ValueError)"

text \<open>
  Modelled from the spec: \<open>sahi.utils.torch.torch_stack\<close> is not among the sources.
  Section 4.3 (Stacking): all per-image tensors are concatenated along a new leading
  batch dimension, preserving their order; section 7 (ShapeMismatch): images of
  inconsistent dimensions fail at stacking time. The tensor library rejects an empty
  sequence of tensors.
\<close>

definition torch_stack :: "'a ndarray list \<Rightarrow> error + 'a ndarray" where
  "torch_stack tensors =
     (case tensors of
        [] \<Rightarrow> Inl EmptyStack
      | t # ts \<Rightarrow>
          if list_all (\<lambda>u. shape u = shape t) ts
          then Inr \<lparr>shape = length tensors # shape t, data = concat (map data tensors)\<rparr>
          else Inl ShapeMismatch)"

section \<open>PredictionInput\<close>

record ('a, 'b) PredictionInput =
  image_list :: "'a ndarray list"
  batch_image_tensor :: "'b ndarray"
  shift_amount_list :: "int list list"
  input_full_image_size :: "int list option"

text \<open>
  \<^verbatim>\<open>
  image_tensor_list = []
  for image in image_list:
      image = image / np.max(image)
      image_tensor_list.append(to_float_tensor(image))
  \<close>
  The loop, with \<open>image_tensor_list\<close> as the accumulator.
\<close>

fun image_tensor_loop ::
  "('a::linorder \<Rightarrow> 'a \<Rightarrow> 'b) \<Rightarrow> 'a ndarray list \<Rightarrow> 'b ndarray list \<Rightarrow> error + 'b ndarray list" where
  "image_tensor_loop dv [] image_tensor_list = Inr image_tensor_list"
| "image_tensor_loop dv (img # rest) image_tensor_list =
     (case np_max img of
        Inl e \<Rightarrow> Inl e
      | Inr m \<Rightarrow>
          (case to_float_tensor (true_divide dv img m) of
             Inl e \<Rightarrow> Inl e
           | Inr t \<Rightarrow> image_tensor_loop dv rest (image_tensor_list @ [t])))"

text \<open>
  Python's truth value of the argument \<open>shift_amount_list\<close>: \<open>None\<close> (the argument
  left out) and the empty list are false, every other list is true.
\<close>

fun truthy :: "'x list option \<Rightarrow> bool" where
  "truthy None = False"
| "truthy (Some []) = False"
| "truthy (Some (x # xs)) = True"

text \<open>
  \<^verbatim>\<open>
  def __init__(self, image_list, shift_amount_list=None, full_image_size=None):
      self.image_list = image_list
      ...
      batch_image_tensor = torch_stack(tuple(image_tensor_list), dim=0)
      self.batch_image_tensor = batch_image_tensor
      if shift_amount_list:
          self.shift_amount_list = shift_amount_list
      else:
          self.shift_amount_list = [[0, 0] for ind in range(len(image_list))]
      self.full_image_size = full_image_size
  \<close>
\<close>

definition PredictionInput_init ::
  "('a::linorder \<Rightarrow> 'a \<Rightarrow> 'b) \<Rightarrow> 'a ndarray list \<Rightarrow> int list list option \<Rightarrow> int list option
     \<Rightarrow> error + ('a, 'b) PredictionInput" where
  "PredictionInput_init dv imgs shift_arg full_image_size_arg =
     (case image_tensor_loop dv imgs [] of
        Inl e \<Rightarrow> Inl e
      | Inr image_tensor_list \<Rightarrow>
          (case torch_stack image_tensor_list of
             Inl e \<Rightarrow> Inl e
           | Inr batch \<Rightarrow>
               Inr \<lparr>image_list = imgs,
                    batch_image_tensor = batch,
                    shift_amount_list =
                      (if truthy shift_arg then the shift_arg
                       else map (\<lambda>ind. [0, 0]) [0..<length imgs]),
                    input_full_image_size = full_image_size_arg\<rparr>))"

text \<open>
  The images the contract of section 4.3 admits: \<open>imgs\<close> is a non-empty sequence of
  height x width x channel arrays of one shape, each with at least one pixel.
\<close>

definition image_ok :: "nat \<Rightarrow> nat \<Rightarrow> nat \<Rightarrow> 'a ndarray \<Rightarrow> bool" where
  "image_ok h w c img = (shape img = [h, w, c] \<and> ndarray_ok img \<and> data img \<noteq> [])"

definition images_ok :: "nat \<Rightarrow> nat \<Rightarrow> nat \<Rightarrow> 'a ndarray list \<Rightarrow> bool" where
  "images_ok h w c imgs = (imgs \<noteq> [] \<and> list_all (image_ok h w c) imgs)"

text \<open>
  Per-image max-normalization as section 4.3 words it: every pixel value of the image
  divided by that image's own maximum value.
\<close>

definition max_normalized :: "('a::linorder \<Rightarrow> 'a \<Rightarrow> 'b) \<Rightarrow> 'a ndarray \<Rightarrow> 'b ndarray" where
  "max_normalized dv img =
     \<lparr>shape = shape img, data = map (\<lambda>p. dv p (Max (set (data img)))) (data img)\<rparr>"

section \<open>The region component\<close>

text \<open>
  Modelled from the spec: \<open>sahi.annotation\<close> (\<open>BoundingBox\<close>, \<open>Mask\<close>, \<open>Category\<close>,
  \<open>ObjectAnnotation\<close>) is not among the sources. Sections 3, 4.2 and 6: a box is
  \<open>[min_x, min_y, max_x, max_y]\<close> in the frame given by a shift offset
  \<open>[shift_x, shift_y]\<close>; \<open>get_shifted_box\<close> translates it by that offset and
  \<open>to_voc_bbox\<close> gives the min/max list back. Coordinates and offsets are pixel
  positions, Python ints. A list of another length is a malformed region.
\<close>

record BoundingBox =
  minx :: int
  miny :: int
  maxx :: int
  maxy :: int
  shift_x :: int
  shift_y :: int

definition BoundingBox_init :: "int list \<Rightarrow> int list \<Rightarrow> error + BoundingBox" where
  "BoundingBox_init box shift_amount_arg =
     (case (box, shift_amount_arg) of
        ([x1, y1, x2, y2], [sx, sy]) \<Rightarrow>
          Inr \<lparr>minx = x1, miny = y1, maxx = x2, maxy = y2, shift_x = sx, shift_y = sy\<rparr>
      | _ \<Rightarrow> Inl MalformedRegion)"

definition get_shifted_box :: "BoundingBox \<Rightarrow> BoundingBox" where
  "get_shifted_box b =
     \<lparr>minx = minx b + shift_x b, miny = miny b + shift_y b,
      maxx = maxx b + shift_x b, maxy = maxy b + shift_y b,
      shift_x = 0, shift_y = 0\<rparr>"

definition to_voc_bbox :: "BoundingBox \<Rightarrow> int list" where
  "to_voc_bbox b = [minx b, miny b, maxx b, maxy b]"

text \<open>
  Modelled from the spec: \<open>Category\<close> of \<open>sahi.annotation\<close>. Section 3: \<open>category_id\<close>
  is an integer and always present, \<open>category_name\<close> is an optional label.
\<close>

record Category =
  category_id :: int
  category_name :: "string option"

text \<open>
  Modelled from the spec: \<open>Mask\<close> of \<open>sahi.annotation\<close>. Sections 3, 4.2 and 6: a mask
  is a 2D boolean region in the same frame as the box; it records its shift offset and
  the full-image size it was given (possibly unset); \<open>get_shifted_mask\<close> translates
  the region by the offset and \<open>get_full_image_size\<close> reads the recorded size.
  Translating by \<open>d\<close> along one axis moves position \<open>i\<close> to \<open>i + d\<close>: blank entries
  enter in front for \<open>d \<ge> 0\<close>, and entries moved below position 0 are cut off.
\<close>

record Mask =
  bool_mask :: "bool list list"
  mask_shift_x :: int
  mask_shift_y :: int
  mask_full_image_size :: "int list option"

definition Mask_init :: "bool list list \<Rightarrow> int list \<Rightarrow> int list option \<Rightarrow> error + Mask" where
  "Mask_init bm shift_amount_arg full_image_size_arg =
     (case shift_amount_arg of
        [sx, sy] \<Rightarrow>
          Inr \<lparr>bool_mask = bm, mask_shift_x = sx, mask_shift_y = sy,
               mask_full_image_size = full_image_size_arg\<rparr>
      | _ \<Rightarrow> Inl MalformedRegion)"

definition translate :: "int \<Rightarrow> 'a \<Rightarrow> 'a list \<Rightarrow> 'a list" where
  "translate d blank xs =
     (if 0 \<le> d then replicate (nat d) blank @ xs else drop (nat (- d)) xs)"

definition mask_width :: "bool list list \<Rightarrow> nat" where
  "mask_width bm = (case bm of [] \<Rightarrow> 0 | row # _ \<Rightarrow> length row)"

definition get_shifted_mask :: "Mask \<Rightarrow> Mask" where
  "get_shifted_mask m =
     (let rows = map (translate (mask_shift_x m) False) (bool_mask m)
      in \<lparr>bool_mask = translate (mask_shift_y m) (replicate (mask_width rows) False) rows,
          mask_shift_x = 0, mask_shift_y = 0,
          mask_full_image_size = mask_full_image_size m\<rparr>)"

definition get_full_image_size :: "Mask \<Rightarrow> int list option" where
  "get_full_image_size m = mask_full_image_size m"

text \<open>
  Modelled from the spec: \<open>ObjectAnnotation\<close> of \<open>sahi.annotation\<close>, the base class of
  \<open>ObjectPrediction\<close>. Section 3 (Detection Record): the record holds its box, its
  optional mask, its category, its \<open>shift_amount\<close> and its \<open>full_image_size\<close>
  (possibly unset). Section 4.2: it is constructed from the box, the category, the
  optional boolean mask, the offset and the size; box and mask are put in the frame of
  that offset, and the mask is present exactly when a boolean mask was given.
\<close>

record ObjectAnnotation =
  bbox :: BoundingBox
  mask :: "Mask option"
  category :: Category
  shift_amount :: "int list"
  full_image_size :: "int list option"

definition ObjectAnnotation_init ::
  "int list \<Rightarrow> bool list list option \<Rightarrow> int \<Rightarrow> string option \<Rightarrow> int list \<Rightarrow> int list option
     \<Rightarrow> error + ObjectAnnotation" where
  "ObjectAnnotation_init bbox_arg bool_mask_arg category_id_arg category_name_arg
       shift_amount_arg full_image_size_arg =
     (case BoundingBox_init bbox_arg shift_amount_arg of
        Inl e \<Rightarrow> Inl e
      | Inr b \<Rightarrow>
          (case (case bool_mask_arg of
                   None \<Rightarrow> Inr None
                 | Some bm \<Rightarrow>
                     map_sum id Some (Mask_init bm shift_amount_arg full_image_size_arg)) of
             Inl e \<Rightarrow> Inl e
           | Inr mk \<Rightarrow>
               Inr \<lparr>bbox = b, mask = mk,
                    category =
                      \<lparr>category_id = category_id_arg, category_name = category_name_arg\<rparr>,
                    shift_amount = shift_amount_arg,
                    full_image_size = full_image_size_arg\<rparr>))"

section \<open>ObjectPrediction\<close>

text \<open>
  \<open>class ObjectPrediction(ObjectAnnotation)\<close>: the fields of the base class and
  \<open>self.score\<close>, a \<open>PredictionScore\<close>.
\<close>

record ObjectPrediction = ObjectAnnotation +
  prediction_score :: PredictionScore

text \<open>
  \<^verbatim>\<open>
  def __init__(self, bbox, score, category_id, category_name=None, bool_mask=None,
               shift_amount=[0, 0], full_image_size=[1024, 1024]):
      self.score = PredictionScore(score)
      super().__init__(bbox=bbox, category_id=category_id, bool_mask=bool_mask,
                       category_name=category_name, shift_amount=shift_amount,
                       full_image_size=full_image_size)
  \<close>
  The arguments are the values after Python has filled in the defaults.
\<close>

definition ObjectPrediction_init ::
  "int list \<Rightarrow> number \<Rightarrow> int \<Rightarrow> string option \<Rightarrow> bool list list option \<Rightarrow> int list
     \<Rightarrow> int list option \<Rightarrow> error + ObjectPrediction" where
  "ObjectPrediction_init bbox_arg score_arg category_id_arg category_name_arg bool_mask_arg
       shift_amount_arg full_image_size_arg =
     (let s = PredictionScore_init score_arg
      in case ObjectAnnotation_init bbox_arg bool_mask_arg category_id_arg category_name_arg
                shift_amount_arg full_image_size_arg of
           Inl e \<Rightarrow> Inl e
         | Inr ann \<Rightarrow> Inr (ObjectAnnotation.extend ann (ObjectPrediction.fields s)))"

text \<open>
  \<^verbatim>\<open>
  def get_shifted_object_prediction(self):
      if self.mask:
          return ObjectPrediction(
              bbox=self.bbox.get_shifted_box().to_voc_bbox(),
              category_id=self.category.id,
              score=self.score.score,
              bool_mask=self.mask.get_shifted_mask().bool_mask,
              category_name=self.category.name,
              shift_amount=[0, 0],
              full_image_size=self.mask.get_shifted_mask().get_full_image_size(),
          )
      else:
          return ObjectPrediction(
              bbox=self.bbox.get_shifted_box().to_voc_bbox(),
              category_id=self.category.id,
              score=self.score.score,
              bool_mask=None,
              category_name=self.category.name,
              shift_amount=[0, 0],
              full_image_size=None,
          )
  \<close>
  \<open>self.mask\<close> is \<open>None\<close> or a \<open>Mask\<close> object, and an object is true.
\<close>

definition get_shifted_object_prediction :: "ObjectPrediction \<Rightarrow> error + ObjectPrediction" where
  "get_shifted_object_prediction self =
     (case mask self of
        Some m \<Rightarrow>
          ObjectPrediction_init
            (to_voc_bbox (get_shifted_box (bbox self)))
            (score (prediction_score self))
            (category_id (category self))
            (category_name (category self))
            (Some (bool_mask (get_shifted_mask m)))
            [0, 0]
            (get_full_image_size (get_shifted_mask m))
      | None \<Rightarrow>
          ObjectPrediction_init
            (to_voc_bbox (get_shifted_box (bbox self)))
            (score (prediction_score self))
            (category_id (category self))
            (category_name (category self))
            None
            [0, 0]
            None)"

section \<open>Objects on the heap\<close>

text \<open>
  Python holds every object by reference. The heap lists the objects allocated so far; a
  reference is a position in it, creating an object appends it, and assigning an
  attribute replaces the object at its position. Numbers, strings, coordinate lists and
  boolean arrays are never assigned to in \<open>prediction.py\<close> and are kept as values inside
  the object that holds them.

  An \<open>ObjectPrediction\<close> object holds references to its score, box, mask and category
  objects. Each attribute is unset until \<open>__init__\<close> assigns it; the attribute \<open>mask\<close>,
  once set, is \<open>None\<close> or a reference.
\<close>

record prediction_attrs =
  score_attr :: "nat option"
  bbox_attr :: "nat option"
  mask_attr :: "nat option option"
  category_attr :: "nat option"
  shift_amount_attr :: "int list option"
  full_image_size_attr :: "int list option option"

text \<open>A \<open>PredictionScore\<close> object has the one attribute \<open>score\<close>, unset until assigned.\<close>

datatype hobj =
    ScoreObj "number option"
  | BoxObj BoundingBox
  | MaskObj Mask
  | CategoryObj Category
  | PredictionObj prediction_attrs

type_synonym heap = "hobj list"

definition alloc :: "heap \<Rightarrow> hobj \<Rightarrow> nat \<times> heap" where
  "alloc h v = (length h, h @ [v])"

definition deref :: "heap \<Rightarrow> nat \<Rightarrow> error + hobj" where
  "deref h a = (if a < length h then Inr (h ! a) else Inl DanglingReference)"

text \<open>Running one step after another, where the first exception raised ends the run.\<close>

definition bind_result :: "error + 'a \<Rightarrow> ('a \<Rightarrow> error + 'b) \<Rightarrow> error + 'b" where
  "bind_result x f = (case x of Inl e \<Rightarrow> Inl e | Inr v \<Rightarrow> f v)"

text \<open>Reading an attribute that has not been assigned raises \<open>AttributeError\<close>.\<close>

definition attr :: "'a option \<Rightarrow> error + 'a" where
  "attr x = (case x of None \<Rightarrow> Inl AttributeError | Some v \<Rightarrow> Inr v)"

text \<open>
  Reading the object behind a reference as an object of the class the code expects
  there: \<open>x.score\<close> of a \<open>PredictionScore\<close>, a \<open>BoundingBox\<close>, a \<open>Mask\<close>, a
  \<open>Category\<close>, and the attributes of an \<open>ObjectPrediction\<close>.
\<close>

definition get_score :: "heap \<Rightarrow> nat \<Rightarrow> error + number" where
  "get_score h a =
     (case deref h a of
        Inl e \<Rightarrow> Inl e
      | Inr (ScoreObj (Some v)) \<Rightarrow> Inr v
      | Inr _ \<Rightarrow> Inl AttributeError)"

definition get_box :: "heap \<Rightarrow> nat \<Rightarrow> error + BoundingBox" where
  "get_box h a =
     (case deref h a of
        Inl e \<Rightarrow> Inl e
      | Inr (BoxObj b) \<Rightarrow> Inr b
      | Inr _ \<Rightarrow> Inl AttributeError)"

definition get_mask :: "heap \<Rightarrow> nat \<Rightarrow> error + Mask" where
  "get_mask h a =
     (case deref h a of
        Inl e \<Rightarrow> Inl e
      | Inr (MaskObj m) \<Rightarrow> Inr m
      | Inr _ \<Rightarrow> Inl AttributeError)"

definition get_category :: "heap \<Rightarrow> nat \<Rightarrow> error + Category" where
  "get_category h a =
     (case deref h a of
        Inl e \<Rightarrow> Inl e
      | Inr (CategoryObj c) \<Rightarrow> Inr c
      | Inr _ \<Rightarrow> Inl AttributeError)"

definition get_attrs :: "heap \<Rightarrow> nat \<Rightarrow> error + prediction_attrs" where
  "get_attrs h a =
     (case deref h a of
        Inl e \<Rightarrow> Inl e
      | Inr (PredictionObj p) \<Rightarrow> Inr p
      | Inr _ \<Rightarrow> Inl AttributeError)"

text \<open>Assigning attributes of the \<open>ObjectPrediction\<close> object at a reference.\<close>

definition set_attrs ::
  "heap \<Rightarrow> nat \<Rightarrow> (prediction_attrs \<Rightarrow> prediction_attrs) \<Rightarrow> error + heap" where
  "set_attrs h a f = bind_result (get_attrs h a) (\<lambda>p. Inr (h[a := PredictionObj (f p)]))"

text \<open>
  Modelled from the spec: \<open>BoundingBox.get_shifted_box\<close> and \<open>Mask.get_shifted_mask\<close> of
  \<open>sahi.annotation\<close> are not among the sources. Section 3: the shift is a pure,
  allocating transform, never an in-place mutation; section 5: there is no aliasing
  between a record and its shifted derivative. So each call creates one new object, the
  translated box or mask, and assigns to nothing.
\<close>

definition heap_get_shifted_box :: "heap \<Rightarrow> nat \<Rightarrow> error + (nat \<times> heap)" where
  "heap_get_shifted_box h a =
     bind_result (get_box h a) (\<lambda>b. Inr (alloc h (BoxObj (get_shifted_box b))))"

definition heap_get_shifted_mask :: "heap \<Rightarrow> nat \<Rightarrow> error + (nat \<times> heap)" where
  "heap_get_shifted_mask h a =
     bind_result (get_mask h a) (\<lambda>m. Inr (alloc h (MaskObj (get_shifted_mask m))))"

text \<open>
  The call \<open>PredictionScore(score)\<close>: Python creates the object, then \<open>__init__\<close>
  (lines 10 to 19) assigns \<open>self.score\<close>.
\<close>

definition heap_PredictionScore :: "heap \<Rightarrow> number \<Rightarrow> nat \<times> heap" where
  "heap_PredictionScore h score0 =
     (let (self, h1) = alloc h (ScoreObj None);
          score1 = (if module_is_numpy score0 then tolist (deepcopy score0) else score0)
      in (self, h1[self := ScoreObj (Some score1)]))"

definition blank_prediction :: prediction_attrs where
  "blank_prediction =
     \<lparr>score_attr = None, bbox_attr = None, mask_attr = None, category_attr = None,
      shift_amount_attr = None, full_image_size_attr = None\<rparr>"

text \<open>
  Modelled from the spec: \<open>ObjectAnnotation.__init__\<close> of \<open>sahi.annotation\<close> is not
  among the sources. It does on the heap what \<open>ObjectAnnotation_init\<close> does on values:
  it creates the box, the mask when a boolean mask is given, and the category, and
  assigns them and the two remaining attributes to \<open>self\<close>.
\<close>

definition heap_ObjectAnnotation_init ::
  "heap \<Rightarrow> nat \<Rightarrow> int list \<Rightarrow> bool list list option \<Rightarrow> int \<Rightarrow> string option \<Rightarrow> int list
     \<Rightarrow> int list option \<Rightarrow> error + heap" where
  "heap_ObjectAnnotation_init h self bbox_arg bool_mask_arg category_id_arg category_name_arg
       shift_amount_arg full_image_size_arg =
     bind_result (BoundingBox_init bbox_arg shift_amount_arg) (\<lambda>b.
       let (b_ref, h1) = alloc h (BoxObj b) in
       bind_result
         (case bool_mask_arg of
            None \<Rightarrow> Inr (None, h1)
          | Some bm \<Rightarrow>
              bind_result (Mask_init bm shift_amount_arg full_image_size_arg) (\<lambda>m.
                let (m_ref, h2) = alloc h1 (MaskObj m) in Inr (Some m_ref, h2)))
         (\<lambda>(mask_v, h2).
            let (c_ref, h3) =
                  alloc h2 (CategoryObj \<lparr>category_id = category_id_arg,
                                         category_name = category_name_arg\<rparr>)
            in set_attrs h3 self
                 (\<lambda>p. p\<lparr>bbox_attr := Some b_ref, mask_attr := Some mask_v,
                          category_attr := Some c_ref,
                          shift_amount_attr := Some shift_amount_arg,
                          full_image_size_attr := Some full_image_size_arg\<rparr>)))"

text \<open>
  The call \<open>ObjectPrediction(...)\<close>: Python creates the object, then \<open>__init__\<close>
  (lines 36 to 75) assigns \<open>self.score = PredictionScore(score)\<close> and calls
  \<open>super().__init__\<close>.
\<close>

definition heap_ObjectPrediction ::
  "heap \<Rightarrow> int list \<Rightarrow> number \<Rightarrow> int \<Rightarrow> string option \<Rightarrow> bool list list option \<Rightarrow> int list
     \<Rightarrow> int list option \<Rightarrow> error + (nat \<times> heap)" where
  "heap_ObjectPrediction h bbox_arg score_arg category_id_arg category_name_arg bool_mask_arg
       shift_amount_arg full_image_size_arg =
     (let (self, h0) = alloc h (PredictionObj blank_prediction);
          (s_ref, h1) = heap_PredictionScore h0 score_arg
      in bind_result (set_attrs h1 self (\<lambda>p. p\<lparr>score_attr := Some s_ref\<rparr>)) (\<lambda>h2.
         bind_result
           (heap_ObjectAnnotation_init h2 self bbox_arg bool_mask_arg category_id_arg
              category_name_arg shift_amount_arg full_image_size_arg) (\<lambda>h3.
         Inr (self, h3))))"

text \<open>
  \<open>get_shifted_object_prediction\<close> (lines 77 to 102) on the heap. The test
  \<open>if self.mask\<close> comes first; the arguments of \<open>ObjectPrediction(...)\<close> are then
  evaluated in the order they are written: \<open>bbox\<close>, \<open>category_id\<close>, \<open>score\<close>,
  \<open>bool_mask\<close>, \<open>category_name\<close>, \<open>shift_amount\<close>, \<open>full_image_size\<close>. With a mask,
  \<open>self.mask.get_shifted_mask()\<close> is called twice, once for \<open>bool_mask\<close> and once for
  \<open>full_image_size\<close>. The method itself contains no assignment.
\<close>

definition heap_get_shifted_object_prediction :: "heap \<Rightarrow> nat \<Rightarrow> error + (nat \<times> heap)" where
  "heap_get_shifted_object_prediction h self =
     bind_result (get_attrs h self) (\<lambda>p.
     bind_result (attr (mask_attr p)) (\<lambda>mask_v.
       case mask_v of
         Some mask_ref \<Rightarrow>
           bind_result (attr (bbox_attr p)) (\<lambda>bbox_ref.
           bind_result (heap_get_shifted_box h bbox_ref) (\<lambda>(b1, h1).
           bind_result (get_box h1 b1) (\<lambda>shifted_box.
           bind_result (attr (category_attr p)) (\<lambda>category_ref.
           bind_result (get_category h1 category_ref) (\<lambda>cat.
           bind_result (attr (score_attr p)) (\<lambda>score_ref.
           bind_result (get_score h1 score_ref) (\<lambda>sc.
           bind_result (heap_get_shifted_mask h1 mask_ref) (\<lambda>(m1, h2).
           bind_result (get_mask h2 m1) (\<lambda>shifted_mask1.
           bind_result (heap_get_shifted_mask h2 mask_ref) (\<lambda>(m2, h3).
           bind_result (get_mask h3 m2) (\<lambda>shifted_mask2.
             heap_ObjectPrediction h3
               (to_voc_bbox shifted_box)
               sc
               (category_id cat)
               (category_name cat)
               (Some (bool_mask shifted_mask1))
               [0, 0]
               (get_full_image_size shifted_mask2))))))))))))
       | None \<Rightarrow>
           bind_result (attr (bbox_attr p)) (\<lambda>bbox_ref.
           bind_result (heap_get_shifted_box h bbox_ref) (\<lambda>(b1, h1).
           bind_result (get_box h1 b1) (\<lambda>shifted_box.
           bind_result (attr (category_attr p)) (\<lambda>category_ref.
           bind_result (get_category h1 category_ref) (\<lambda>cat.
           bind_result (attr (score_attr p)) (\<lambda>score_ref.
           bind_result (get_score h1 score_ref) (\<lambda>sc.
             heap_ObjectPrediction h1
               (to_voc_bbox shifted_box)
               sc
               (category_id cat)
               (category_name cat)
               None
               [0, 0]
               None)))))))))"

text \<open>
  The record held at a reference: the \<open>ObjectPrediction\<close> object with the objects its
  attributes refer to, read as one value. It fails where an attribute is unset or a
  reference leads to no object or to an object of another class.
\<close>

definition load_prediction :: "heap \<Rightarrow> nat \<Rightarrow> error + ObjectPrediction" where
  "load_prediction h a =
     bind_result (get_attrs h a) (\<lambda>p.
     bind_result (attr (score_attr p)) (\<lambda>score_ref.
     bind_result (get_score h score_ref) (\<lambda>sc.
     bind_result (attr (bbox_attr p)) (\<lambda>bbox_ref.
     bind_result (get_box h bbox_ref) (\<lambda>b.
     bind_result (attr (mask_attr p)) (\<lambda>mask_v.
     bind_result
       (case mask_v of
          None \<Rightarrow> Inr None
        | Some mask_ref \<Rightarrow> map_sum id Some (get_mask h mask_ref)) (\<lambda>mk.
     bind_result (attr (category_attr p)) (\<lambda>category_ref.
     bind_result (get_category h category_ref) (\<lambda>c.
     bind_result (attr (shift_amount_attr p)) (\<lambda>sa.
     bind_result (attr (full_image_size_attr p)) (\<lambda>fis.
       Inr \<lparr>bbox = b, mask = mk, category = c, shift_amount = sa, full_image_size = fis,
            prediction_score = \<lparr>score = sc\<rparr>\<rparr>)))))))))))"

text \<open>The references an \<open>ObjectPrediction\<close> object holds.\<close>

definition attr_refs :: "prediction_attrs \<Rightarrow> nat list" where
  "attr_refs p =
     (case score_attr p of Some a \<Rightarrow> [a] | None \<Rightarrow> []) @
     (case bbox_attr p of Some a \<Rightarrow> [a] | None \<Rightarrow> []) @
     (case mask_attr p of Some (Some a) \<Rightarrow> [a] | _ \<Rightarrow> []) @
     (case category_attr p of Some a \<Rightarrow> [a] | None \<Rightarrow> [])"


section \<open>Properties of PredictionScore\<close>

text \<open>
  Claim C5. For every stored score and every threshold, \<open>is_greater_than_threshold\<close>
  is true exactly when the score is strictly above the threshold, that is, when it is
  not at most the threshold; a score compared with itself, stored or freshly
  constructed, is not above the threshold.
\<close>

theorem is_greater_than_threshold_strict:
  "is_greater_than_threshold self t = (\<not> num_val (score self) \<le> num_val t)
   \<and> \<not> is_greater_than_threshold self (score self)
   \<and> \<not> is_greater_than_threshold (PredictionScore_init s) s"
  by (cases s) (simp_all add: is_greater_than_threshold_def py_gt_def PredictionScore_init_def
      deepcopy_def not_le)

text \<open>The two examples of the specification: 0.5 against 0.5, and 0.50001 against 0.5.\<close>

theorem is_greater_than_threshold_examples:
  "\<not> is_greater_than_threshold (PredictionScore_init (Plain 0.5)) (Plain 0.5)
   \<and> is_greater_than_threshold (PredictionScore_init (Plain 0.50001)) (Plain 0.5)"
  using is_greater_than_threshold_strict
          [of "PredictionScore_init (Plain 0.5)" "Plain 0.5" "Plain 0.5"]
        is_greater_than_threshold_strict
          [of "PredictionScore_init (Plain 0.50001)" "Plain 0.5" "Plain 0.5"]
  by (simp add: PredictionScore_init_def)

text \<open>
  Claim C9. Constructing a \<open>PredictionScore\<close> returns a record for every number,
  whatever its value (nothing is clamped or checked): a built-in number is stored as it
  is, a numpy scalar is stored as the built-in number of the same value. So the stored
  score is never a numpy scalar, and its value is the value given.
\<close>

theorem PredictionScore_init_unwraps:
  "PredictionScore_init (Plain x) = \<lparr>score = Plain x\<rparr>
   \<and> PredictionScore_init (Numpy x) = \<lparr>score = Plain x\<rparr>
   \<and> \<not> module_is_numpy (score (PredictionScore_init v))
   \<and> num_val (score (PredictionScore_init v)) = num_val v"
  by (cases v) (simp_all add: PredictionScore_init_def deepcopy_def)

section \<open>Properties of PredictionInput\<close>

subsection \<open>The loop and the layout\<close>

lemma np_max_Max: "data a \<noteq> [] \<Longrightarrow> np_max a = Inr (Max (set (data a)))"
  by (cases "data a") (simp_all add: np_max_def Max.set_eq_fold [symmetric])

lemma true_divide_max: "true_divide dv img (Max (set (data img))) = max_normalized dv img"
  by (simp add: true_divide_def max_normalized_def)

lemma loop_step:
  "image_ok h w c img \<Longrightarrow>
   image_tensor_loop dv (img # rest) acc =
   image_tensor_loop dv rest
     (acc @ [\<lparr>shape = [c, h, w], data = channel_first h w c (data (max_normalized dv img))\<rparr>])"
  by (simp add: image_ok_def np_max_Max true_divide_max to_float_tensor_def max_normalized_def)

lemma loop_ok:
  "list_all (image_ok h w c) imgs \<Longrightarrow>
   image_tensor_loop dv imgs acc =
   Inr (acc @ map (\<lambda>img. \<lparr>shape = [c, h, w],
                          data = channel_first h w c (data (max_normalized dv img))\<rparr>) imgs)"
proof (induction imgs arbitrary: acc)
  case Nil
  then show ?case by simp
next
  case (Cons img rest)
  then have "image_ok h w c img" and "list_all (image_ok h w c) rest" by simp_all
  then show ?case using Cons.IH by (simp only: loop_step) simp
qed

lemma nth_concat_uniform:
  "list_all (\<lambda>ys. length ys = n) xss \<Longrightarrow> i < length xss \<Longrightarrow> j < n \<Longrightarrow>
   concat xss ! (i * n + j) = xss ! i ! j"
proof (induction xss arbitrary: i)
  case Nil
  then show ?case by simp
next
  case (Cons ys xss)
  show ?case
  proof (cases i)
    case 0
    with Cons.prems show ?thesis by (simp add: nth_append)
  next
    case (Suc i')
    with Cons.prems have "concat xss ! (i' * n + j) = xss ! i' ! j"
      by (intro Cons.IH) simp_all
    with Suc Cons.prems show ?thesis by (simp add: nth_append add.assoc)
  qed
qed

lemma length_concat_uniform:
  "list_all (\<lambda>ys. length ys = n) xss \<Longrightarrow> length (concat xss) = length xss * n"
  by (induction xss) simp_all

lemma flat_index_bound: "(y::nat) < h \<Longrightarrow> x < w \<Longrightarrow> y * w + x < h * w"
proof -
  assume "y < h" "x < w"
  then have "y * w + x < Suc y * w" by simp
  also have "\<dots> \<le> h * w" using \<open>y < h\<close> by (intro mult_le_mono1) simp
  finally show ?thesis .
qed

lemma length_channel_first: "length (channel_first h w c xs) = c * h * w"
proof -
  have plane: "length (concat (map (\<lambda>y. map (\<lambda>x. xs ! ((y * w + x) * c + k)) [0..<w]) [0..<h])) = h * w" for k
    by (subst length_concat_uniform [where n = w]) (simp_all add: list_all_iff)
  show ?thesis
    unfolding channel_first_def
    by (subst length_concat_uniform [where n = "h * w"]) (simp_all add: list_all_iff plane)
qed

lemma nth_channel_first:
  assumes "k < c" "y < h" "x < w"
  shows "channel_first h w c xs ! ((k * h + y) * w + x) = xs ! ((y * w + x) * c + k)"
proof -
  let ?plane = "\<lambda>k. concat (map (\<lambda>y. map (\<lambda>x. xs ! ((y * w + x) * c + k)) [0..<w]) [0..<h])"
  have len: "length (?plane k') = h * w" for k'
    by (subst length_concat_uniform [where n = w]) (simp_all add: list_all_iff)
  have idx: "(k * h + y) * w + x = k * (h * w) + (y * w + x)"
    by (simp add: algebra_simps)
  have "channel_first h w c xs ! (k * (h * w) + (y * w + x)) = map ?plane [0..<c] ! k ! (y * w + x)"
    unfolding channel_first_def using assms
    by (intro nth_concat_uniform) (simp_all add: list_all_iff len flat_index_bound)
  also have "\<dots> = ?plane k ! (y * w + x)" using assms by simp
  also have "\<dots> = map (\<lambda>y. map (\<lambda>x. xs ! ((y * w + x) * c + k)) [0..<w]) [0..<h] ! y ! x"
    using assms by (intro nth_concat_uniform) (simp_all add: list_all_iff)
  also have "\<dots> = xs ! ((y * w + x) * c + k)" using assms by simp
  finally show ?thesis by (simp only: idx)
qed

lemma init_ok:
  assumes "images_ok h w c imgs"
  shows "PredictionInput_init dv imgs sa fs =
     Inr \<lparr>image_list = imgs,
          batch_image_tensor =
            \<lparr>shape = [length imgs, c, h, w],
             data = concat (map (\<lambda>img. channel_first h w c (data (max_normalized dv img))) imgs)\<rparr>,
          shift_amount_list =
            (if truthy sa then the sa else map (\<lambda>ind. [0, 0]) [0..<length imgs]),
          input_full_image_size = fs\<rparr>"
proof -
  from assms obtain img rest where imgs: "imgs = img # rest"
    by (cases imgs) (simp_all add: images_ok_def)
  from assms have "list_all (image_ok h w c) imgs" by (simp add: images_ok_def)
  then have loop: "image_tensor_loop dv imgs [] =
     Inr (map (\<lambda>img. \<lparr>shape = [c, h, w],
                        data = channel_first h w c (data (max_normalized dv img))\<rparr>) imgs)"
    by (simp add: loop_ok)
  show ?thesis
    unfolding PredictionInput_init_def loop
    by (simp add: imgs torch_stack_def list_all_iff comp_def)
qed

lemma init_shift:
  "PredictionInput_init dv imgs sa fs = Inr p \<Longrightarrow>
   shift_amount_list p = (if truthy sa then the sa else replicate (length imgs) [0, 0])"
  by (auto simp: PredictionInput_init_def map_replicate_const split: sum.splits)

lemma init_isl:
  "isl (PredictionInput_init dv imgs sa fs) = isl (PredictionInput_init dv imgs sa' fs)"
  by (simp add: PredictionInput_init_def split: sum.splits)

lemma batch_pixel:
  assumes ok: "images_ok h w c imgs" and i: "i < length imgs" and k: "k < c" and y: "y < h" and x: "x < w"
  shows "concat (map (\<lambda>img. channel_first h w c (data (max_normalized dv img))) imgs)
           ! (((i * c + k) * h + y) * w + x)
         = dv (data (imgs ! i) ! ((y * w + x) * c + k)) (Max (set (data (imgs ! i))))"
proof -
  let ?f = "\<lambda>img. channel_first h w c (data (max_normalized dv img))"
  from ok i have img: "image_ok h w c (imgs ! i)"
    by (simp add: images_ok_def list_all_length)
  have kh: "k * h + y < c * h" using k y by (rule flat_index_bound)
  have j: "(k * h + y) * w + x < c * h * w" using kh x by (rule flat_index_bound)
  have yx: "y * w + x < h * w" using y x by (rule flat_index_bound)
  have src: "(y * w + x) * c + k < length (data (imgs ! i))"
    using flat_index_bound [OF yx k] img by (simp add: image_ok_def ndarray_ok_def mult.assoc)
  have idx: "((i * c + k) * h + y) * w + x = i * (c * h * w) + ((k * h + y) * w + x)"
    by (simp add: algebra_simps)
  have "concat (map ?f imgs) ! (i * (c * h * w) + ((k * h + y) * w + x))
        = map ?f imgs ! i ! ((k * h + y) * w + x)"
    using i j by (intro nth_concat_uniform) (simp_all add: list_all_iff length_channel_first)
  also have "\<dots> = data (max_normalized dv (imgs ! i)) ! ((y * w + x) * c + k)"
    using i k y x by (simp add: nth_channel_first)
  also have "\<dots> = dv (data (imgs ! i) ! ((y * w + x) * c + k)) (Max (set (data (imgs ! i))))"
    using src by (simp add: max_normalized_def)
  finally show ?thesis by (simp only: idx)
qed

subsection \<open>The batch tensor\<close>

text \<open>
  Claim C4. For every non-empty list of \<open>N\<close> images of one shape height x width x
  channel, construction returns a \<open>PredictionInput\<close> that keeps the images, whose
  batch tensor has shape \<open>[N, channel, height, width]\<close> and lists, image after image in
  the order of \<open>image_list\<close>, the channel-first layout of the image divided by its own
  maximum: the element at batch index \<open>i\<close>, channel \<open>k\<close>, row \<open>y\<close>, column \<open>x\<close> is pixel
  \<open>(y, x, k)\<close> of image \<open>i\<close> divided by the largest pixel of image \<open>i\<close>. A supplied
  non-empty \<open>shift_amount_list\<close> is stored as given, so its entry \<open>i\<close> stands beside
  batch index \<open>i\<close>.
\<close>

theorem batch_image_tensor_per_image_max:
  assumes "images_ok h w c imgs"
  shows "\<exists>p. PredictionInput_init dv imgs sa fs = Inr p
     \<and> image_list p = imgs
     \<and> shape (batch_image_tensor p) = [length imgs, c, h, w]
     \<and> data (batch_image_tensor p) =
         concat (map (\<lambda>img. channel_first h w c (data (max_normalized dv img))) imgs)
     \<and> (\<forall>i k y x. i < length imgs \<and> k < c \<and> y < h \<and> x < w \<longrightarrow>
           data (batch_image_tensor p) ! (((i * c + k) * h + y) * w + x) =
           dv (data (imgs ! i) ! ((y * w + x) * c + k)) (Max (set (data (imgs ! i)))))
     \<and> (\<forall>sl. sa = Some sl \<and> sl \<noteq> [] \<longrightarrow> shift_amount_list p = sl)"
proof -
  have sh: "truthy (Some sl)" if "sl \<noteq> []" for sl :: "int list list"
    using that by (cases sl) simp_all
  show ?thesis
    by (simp add: init_ok [OF assms] batch_pixel [OF assms] sh)
qed

text \<open>
  Two images of one row, two columns and two channels with maxima 100 and 50: each
  reaches the peak value 1 in the batch.
\<close>

theorem batch_image_tensor_per_image_max_witness:
  "images_ok 1 2 2
     [\<lparr>shape = [1, 2, 2], data = [100, 50, 20, 10 :: real]\<rparr>,
      \<lparr>shape = [1, 2, 2], data = [5, 50, 25, 10]\<rparr>]
   \<and> PredictionInput_init (/)
     [\<lparr>shape = [1, 2, 2], data = [100, 50, 20, 10 :: real]\<rparr>,
      \<lparr>shape = [1, 2, 2], data = [5, 50, 25, 10]\<rparr>]
     (Some [[0, 0], [100, 0]]) None =
   Inr \<lparr>image_list =
          [\<lparr>shape = [1, 2, 2], data = [100, 50, 20, 10]\<rparr>,
           \<lparr>shape = [1, 2, 2], data = [5, 50, 25, 10]\<rparr>],
        batch_image_tensor =
          \<lparr>shape = [2, 2, 1, 2],
           data = [1, 1 / 5, 1 / 2, 1 / 10, 1 / 10, 1 / 2, 1, 1 / 5 :: real]\<rparr>,
        shift_amount_list = [[0, 0], [100, 0]],
        input_full_image_size = None\<rparr>"
  using batch_image_tensor_per_image_max
    [of 1 2 2
        "[\<lparr>shape = [1, 2, 2], data = [100, 50, 20, 10 :: real]\<rparr>,
      \<lparr>shape = [1, 2, 2], data = [5, 50, 25, 10]\<rparr>]"
        "(/)" "Some [[0, 0], [100, 0]]" None]
  by (simp add: images_ok_def image_ok_def ndarray_ok_def PredictionInput_init_def np_max_def
      true_divide_def to_float_tensor_def channel_first_def torch_stack_def upt_rec)

subsection \<open>The shift offsets\<close>

text \<open>
  Claim C8. Without a \<open>shift_amount_list\<close>, every \<open>PredictionInput\<close> that construction
  returns for an \<open>image_list\<close> of length \<open>N\<close> has \<open>shift_amount_list\<close> equal to
  \<open>[0, 0]\<close> repeated \<open>N\<close> times; and for a non-empty list of same-shaped images
  construction does return one.
\<close>

theorem default_shift_amount_list:
  "(PredictionInput_init dv imgs None fs = Inr p \<longrightarrow>
      shift_amount_list p = replicate (length imgs) [0, 0])
   \<and> (images_ok h w c imgs \<longrightarrow>
      (\<exists>q. PredictionInput_init dv imgs None fs = Inr q
         \<and> shift_amount_list q = replicate (length imgs) [0, 0]))"
  by (auto simp: init_ok map_replicate_const dest: init_shift)

theorem default_shift_amount_list_witness:
  "images_ok 1 2 2
     [\<lparr>shape = [1, 2, 2], data = [100, 50, 20, 10 :: real]\<rparr>,
      \<lparr>shape = [1, 2, 2], data = [5, 50, 25, 10]\<rparr>]
   \<and> PredictionInput_init (/)
     [\<lparr>shape = [1, 2, 2], data = [100, 50, 20, 10 :: real]\<rparr>,
      \<lparr>shape = [1, 2, 2], data = [5, 50, 25, 10]\<rparr>]
     None None =
   Inr \<lparr>image_list =
          [\<lparr>shape = [1, 2, 2], data = [100, 50, 20, 10]\<rparr>,
           \<lparr>shape = [1, 2, 2], data = [5, 50, 25, 10]\<rparr>],
        batch_image_tensor =
          \<lparr>shape = [2, 2, 1, 2],
           data = [1, 1 / 5, 1 / 2, 1 / 10, 1 / 10, 1 / 2, 1, 1 / 5 :: real]\<rparr>,
        shift_amount_list = [[0, 0], [0, 0]],
        input_full_image_size = None\<rparr>"
  using default_shift_amount_list
    [of "(/)"
        "[\<lparr>shape = [1, 2, 2], data = [100, 50, 20, 10 :: real]\<rparr>,
      \<lparr>shape = [1, 2, 2], data = [5, 50, 25, 10]\<rparr>]"
        None
        "\<lparr>image_list =
          [\<lparr>shape = [1, 2, 2], data = [100, 50, 20, 10]\<rparr>,
           \<lparr>shape = [1, 2, 2], data = [5, 50, 25, 10]\<rparr>],
        batch_image_tensor =
          \<lparr>shape = [2, 2, 1, 2],
           data = [1, 1 / 5, 1 / 2, 1 / 10, 1 / 10, 1 / 2, 1, 1 / 5 :: real]\<rparr>,
        shift_amount_list = [[0, 0], [0, 0]],
        input_full_image_size = None\<rparr>"
        1 2 2]
  by (simp add: images_ok_def image_ok_def ndarray_ok_def PredictionInput_init_def np_max_def
      true_divide_def to_float_tensor_def channel_first_def torch_stack_def upt_rec)

text \<open>
  Claim C10. An empty \<open>shift_amount_list\<close> gives the very result of leaving the
  argument out: no error of its own, and the list \<open>[0, 0]\<close> repeated \<open>N\<close> times
  in every \<open>PredictionInput\<close> returned, which a non-empty list of same-shaped images
  always gets.
\<close>

theorem empty_shift_amount_list_is_default:
  "PredictionInput_init dv imgs (Some []) fs = PredictionInput_init dv imgs None fs
   \<and> (PredictionInput_init dv imgs (Some []) fs = Inr p \<longrightarrow>
        shift_amount_list p = replicate (length imgs) [0, 0])
   \<and> (images_ok h w c imgs \<longrightarrow>
        (\<exists>q. PredictionInput_init dv imgs (Some []) fs = Inr q
           \<and> shift_amount_list q = replicate (length imgs) [0, 0]))"
proof (intro conjI impI)
  show "PredictionInput_init dv imgs (Some []) fs = PredictionInput_init dv imgs None fs"
    by (simp add: PredictionInput_init_def)
  show "shift_amount_list p = replicate (length imgs) [0, 0]"
    if "PredictionInput_init dv imgs (Some []) fs = Inr p"
    using init_shift [OF that] by simp
  show "\<exists>q. PredictionInput_init dv imgs (Some []) fs = Inr q
           \<and> shift_amount_list q = replicate (length imgs) [0, 0]"
    if "images_ok h w c imgs"
    by (simp add: init_ok [OF that] map_replicate_const)
qed

theorem empty_shift_amount_list_is_default_witness:
  "images_ok 1 1 1 [\<lparr>shape = [1, 1, 1], data = [200 :: real]\<rparr>,
                    \<lparr>shape = [1, 1, 1], data = [40]\<rparr>]
   \<and> PredictionInput_init (/)
         [\<lparr>shape = [1, 1, 1], data = [200 :: real]\<rparr>, \<lparr>shape = [1, 1, 1], data = [40]\<rparr>]
         (Some []) (Some [10, 20]) =
       Inr \<lparr>image_list =
              [\<lparr>shape = [1, 1, 1], data = [200]\<rparr>, \<lparr>shape = [1, 1, 1], data = [40]\<rparr>],
            batch_image_tensor = \<lparr>shape = [2, 1, 1, 1], data = [1, 1 :: real]\<rparr>,
            shift_amount_list = [[0, 0], [0, 0]],
            input_full_image_size = Some [10, 20]\<rparr>"
  using empty_shift_amount_list_is_default
    [of "(/)" "[\<lparr>shape = [1, 1, 1], data = [200 :: real]\<rparr>, \<lparr>shape = [1, 1, 1], data = [40]\<rparr>]"
        "Some [10, 20]"
        "\<lparr>image_list =
              [\<lparr>shape = [1, 1, 1], data = [200]\<rparr>, \<lparr>shape = [1, 1, 1], data = [40]\<rparr>],
            batch_image_tensor = \<lparr>shape = [2, 1, 1, 1], data = [1, 1 :: real]\<rparr>,
            shift_amount_list = [[0, 0], [0, 0]],
            input_full_image_size = Some [10, 20]\<rparr>" 1 1 1]
  by (simp add: images_ok_def image_ok_def ndarray_ok_def PredictionInput_init_def np_max_def
      true_divide_def to_float_tensor_def channel_first_def torch_stack_def upt_rec)

text \<open>
  Claim C2, as stated, fails: three images with a list of two offsets are accepted, and
  the two offsets are stored.
\<close>

theorem length_mismatch_counterexample:
  "PredictionInput_init (/)
     [\<lparr>shape = [1, 1, 1], data = [200 :: real]\<rparr>, \<lparr>shape = [1, 1, 1], data = [40]\<rparr>,
      \<lparr>shape = [1, 1, 1], data = [8]\<rparr>]
     (Some [[0, 0], [100, 0]]) None =
   Inr \<lparr>image_list =
          [\<lparr>shape = [1, 1, 1], data = [200]\<rparr>, \<lparr>shape = [1, 1, 1], data = [40]\<rparr>,
           \<lparr>shape = [1, 1, 1], data = [8]\<rparr>],
        batch_image_tensor = \<lparr>shape = [3, 1, 1, 1], data = [1, 1, 1 :: real]\<rparr>,
        shift_amount_list = [[0, 0], [100, 0]],
        input_full_image_size = None\<rparr>"
  by (simp add: PredictionInput_init_def np_max_def true_divide_def to_float_tensor_def
      channel_first_def torch_stack_def upt_rec)

text \<open>
  Claim C2, amended. A supplied non-empty \<open>shift_amount_list\<close> is never compared with
  \<open>image_list\<close>: construction succeeds or fails exactly as it does without the
  argument, every \<open>PredictionInput\<close> returned stores the list as supplied whatever
  its length, and a non-empty list of same-shaped images always gets one.
\<close>

theorem supplied_shift_amount_list_unchecked:
  assumes "sl \<noteq> []"
  shows "isl (PredictionInput_init dv imgs (Some sl) fs) = isl (PredictionInput_init dv imgs None fs)
   \<and> (PredictionInput_init dv imgs (Some sl) fs = Inr p \<longrightarrow> shift_amount_list p = sl)
   \<and> (images_ok h w c imgs \<longrightarrow>
        (\<exists>q. PredictionInput_init dv imgs (Some sl) fs = Inr q \<and> shift_amount_list q = sl))"
proof -
  from assms obtain s ss where sl: "sl = s # ss" by (cases sl) simp_all
  show ?thesis
  proof (intro conjI impI)
    show "isl (PredictionInput_init dv imgs (Some sl) fs) = isl (PredictionInput_init dv imgs None fs)"
      by (rule init_isl)
    show "shift_amount_list p = sl" if "PredictionInput_init dv imgs (Some sl) fs = Inr p"
      using init_shift [OF that] by (simp add: sl)
    show "\<exists>q. PredictionInput_init dv imgs (Some sl) fs = Inr q \<and> shift_amount_list q = sl"
      if "images_ok h w c imgs"
      by (simp add: init_ok [OF that] sl)
  qed
qed

theorem supplied_shift_amount_list_unchecked_witness:
  "[[0, 0], [100, 0]] \<noteq> ([] :: int list list)
   \<and> images_ok 1 1 1 [\<lparr>shape = [1, 1, 1], data = [200 :: real]\<rparr>,
        \<lparr>shape = [1, 1, 1], data = [40]\<rparr>, \<lparr>shape = [1, 1, 1], data = [8]\<rparr>]
   \<and> PredictionInput_init (/)
     [\<lparr>shape = [1, 1, 1], data = [200 :: real]\<rparr>, \<lparr>shape = [1, 1, 1], data = [40]\<rparr>,
      \<lparr>shape = [1, 1, 1], data = [8]\<rparr>]
     (Some [[0, 0], [100, 0]]) None =
   Inr \<lparr>image_list =
          [\<lparr>shape = [1, 1, 1], data = [200]\<rparr>, \<lparr>shape = [1, 1, 1], data = [40]\<rparr>,
           \<lparr>shape = [1, 1, 1], data = [8]\<rparr>],
        batch_image_tensor = \<lparr>shape = [3, 1, 1, 1], data = [1, 1, 1 :: real]\<rparr>,
        shift_amount_list = [[0, 0], [100, 0]],
        input_full_image_size = None\<rparr>"
  using supplied_shift_amount_list_unchecked
    [of "[[0, 0], [100, 0]]" "(/)"
        "[\<lparr>shape = [1, 1, 1], data = [200 :: real]\<rparr>, \<lparr>shape = [1, 1, 1], data = [40]\<rparr>,
          \<lparr>shape = [1, 1, 1], data = [8]\<rparr>]" None
        "\<lparr>image_list =
          [\<lparr>shape = [1, 1, 1], data = [200]\<rparr>, \<lparr>shape = [1, 1, 1], data = [40]\<rparr>,
           \<lparr>shape = [1, 1, 1], data = [8]\<rparr>],
        batch_image_tensor = \<lparr>shape = [3, 1, 1, 1], data = [1, 1, 1 :: real]\<rparr>,
        shift_amount_list = [[0, 0], [100, 0]],
        input_full_image_size = None\<rparr>" 1 1 1]
  by (simp add: images_ok_def image_ok_def ndarray_ok_def PredictionInput_init_def np_max_def
      true_divide_def to_float_tensor_def channel_first_def torch_stack_def upt_rec)

section \<open>Properties of ObjectPrediction\<close>

subsection \<open>What the two methods compute\<close>

lemma shifted_eq:
  "get_shifted_object_prediction self =
     Inr \<lparr>bbox = get_shifted_box (bbox self),
          mask = map_option get_shifted_mask (mask self),
          category = category self,
          shift_amount = [0, 0],
          full_image_size =
            (case mask self of None \<Rightarrow> None | Some m \<Rightarrow> get_full_image_size (get_shifted_mask m)),
          prediction_score = PredictionScore_init (score (prediction_score self))\<rparr>"
  by (cases "mask self")
     (simp_all add: get_shifted_object_prediction_def ObjectPrediction_init_def
        ObjectAnnotation_init_def BoundingBox_init_def Mask_init_def to_voc_bbox_def
        get_shifted_box_def get_shifted_mask_def get_full_image_size_def
        ObjectAnnotation.extend_def ObjectPrediction.fields_def Let_def)

lemma init_eq:
  "ObjectPrediction_init [x1, y1, x2, y2] sc cid cn bm [dx, dy] fis =
     Inr \<lparr>bbox = \<lparr>minx = x1, miny = y1, maxx = x2, maxy = y2, shift_x = dx, shift_y = dy\<rparr>,
          mask = map_option (\<lambda>b. \<lparr>bool_mask = b, mask_shift_x = dx, mask_shift_y = dy,
                                  mask_full_image_size = fis\<rparr>) bm,
          category = \<lparr>category_id = cid, category_name = cn\<rparr>,
          shift_amount = [dx, dy],
          full_image_size = fis,
          prediction_score = PredictionScore_init sc\<rparr>"
  by (cases bm)
     (simp_all add: ObjectPrediction_init_def ObjectAnnotation_init_def BoundingBox_init_def
        Mask_init_def ObjectAnnotation.extend_def ObjectPrediction.fields_def Let_def)

lemma score_init_plain:
  "\<not> module_is_numpy v \<Longrightarrow> PredictionScore_init v = \<lparr>score = v\<rparr>"
  by (simp add: PredictionScore_init_def)

lemma score_init_val: "num_val (score (PredictionScore_init v)) = num_val v"
  by (cases v) (simp_all add: PredictionScore_init_def deepcopy_def)

subsection \<open>The shifted record\<close>

text \<open>
  Claim C1. For every \<open>ObjectPrediction\<close>, \<open>get_shifted_object_prediction\<close> returns a
  record whose box, as a min/max list, is the box of the original with the offset of its
  frame added to each coordinate; and the record constructed from the box
  \<open>[x1, y1, x2, y2]\<close> and the shift amount \<open>[dx, dy]\<close> has that box and that shift
  amount, and its shifted record has the box \<open>[x1 + dx, y1 + dy, x2 + dx, y2 + dy]\<close>.
\<close>

theorem shifted_box_is_translated:
  "(\<exists>new. get_shifted_object_prediction self = Inr new
      \<and> to_voc_bbox (bbox new) =
          [minx (bbox self) + shift_x (bbox self), miny (bbox self) + shift_y (bbox self),
           maxx (bbox self) + shift_x (bbox self), maxy (bbox self) + shift_y (bbox self)])
   \<and> (\<exists>rec new. ObjectPrediction_init [x1, y1, x2, y2] sc cid cn bm [dx, dy] fis = Inr rec
      \<and> to_voc_bbox (bbox rec) = [x1, y1, x2, y2] \<and> shift_amount rec = [dx, dy]
      \<and> get_shifted_object_prediction rec = Inr new
      \<and> to_voc_bbox (bbox new) = [x1 + dx, y1 + dy, x2 + dx, y2 + dy])"
  by (simp add: shifted_eq init_eq to_voc_bbox_def get_shifted_box_def)

text \<open>
  The examples of the specification: the box \<open>[10, 10, 20, 20]\<close> shifted by \<open>[5, 5]\<close>,
  and the box \<open>[0, 0, 50, 50]\<close> of a tile at \<open>[200, 300]\<close> in an image of size
  \<open>[1000, 1200]\<close>.
\<close>

theorem shifted_box_examples:
  "(\<exists>rec new. ObjectPrediction_init [10, 10, 20, 20] (Plain 0.9) 1 None None [5, 5] None = Inr rec
      \<and> get_shifted_object_prediction rec = Inr new
      \<and> to_voc_bbox (bbox new) = [15, 15, 25, 25])
   \<and> (\<exists>rec new. ObjectPrediction_init [0, 0, 50, 50] (Plain 0.9) 3 None None [200, 300]
                    (Some [1000, 1200]) = Inr rec
      \<and> get_shifted_object_prediction rec = Inr new
      \<and> to_voc_bbox (bbox new) = [200, 300, 250, 350])"
  using shifted_box_is_translated
          [of "\<lparr>bbox = \<lparr>minx = 10, miny = 10, maxx = 20, maxy = 20, shift_x = 5, shift_y = 5\<rparr>,
      mask = Some \<lparr>bool_mask = [[True]], mask_shift_x = 1, mask_shift_y = 2,
                   mask_full_image_size = Some [5, 5]\<rparr>,
      category = \<lparr>category_id = 1, category_name = Some ''car''\<rparr>,
      shift_amount = [5, 5], full_image_size = Some [5, 5],
      prediction_score = \<lparr>score = Plain 0.5\<rparr>\<rparr>"
              10 10 20 20 "Plain 0.9" 1 None None 5 5 None]
        shifted_box_is_translated
          [of "\<lparr>bbox = \<lparr>minx = 0, miny = 0, maxx = 50, maxy = 50, shift_x = 200, shift_y = 300\<rparr>,
      mask = None,
      category = \<lparr>category_id = 3, category_name = None\<rparr>,
      shift_amount = [200, 300], full_image_size = Some [1000, 1200],
      prediction_score = \<lparr>score = Plain 0.9\<rparr>\<rparr>"
              0 0 50 50 "Plain 0.9" 3 None None 200 300 "Some [1000, 1200]"]
  by (simp add: shifted_eq init_eq to_voc_bbox_def get_shifted_box_def)

text \<open>
  Claim C3. For every \<open>ObjectPrediction\<close>, the record that
  \<open>get_shifted_object_prediction\<close> returns has \<open>shift_amount\<close> \<open>[0, 0]\<close>, a box with
  no offset left, and as \<open>full_image_size\<close> the size recorded by the shifted mask when
  the original has a mask, and no size when it has none.
\<close>

theorem shifted_resets_shift_amount:
  "\<exists>new. get_shifted_object_prediction self = Inr new
     \<and> shift_amount new = [0, 0]
     \<and> shift_x (bbox new) = 0 \<and> shift_y (bbox new) = 0
     \<and> full_image_size new =
         (case mask self of None \<Rightarrow> None
          | Some m \<Rightarrow> get_full_image_size (get_shifted_mask m))"
  by (simp add: shifted_eq get_shifted_box_def)

text \<open>A record with a mask and a record without one.\<close>

theorem shifted_resets_shift_amount_examples:
  "get_shifted_object_prediction
     \<lparr>bbox = \<lparr>minx = 10, miny = 10, maxx = 20, maxy = 20, shift_x = 5, shift_y = 5\<rparr>,
      mask = Some \<lparr>bool_mask = [[True]], mask_shift_x = 1, mask_shift_y = 2,
                   mask_full_image_size = Some [5, 5]\<rparr>,
      category = \<lparr>category_id = 1, category_name = Some ''car''\<rparr>,
      shift_amount = [5, 5], full_image_size = Some [5, 5],
      prediction_score = \<lparr>score = Plain 0.5\<rparr>\<rparr> =
   Inr \<lparr>bbox = \<lparr>minx = 15, miny = 15, maxx = 25, maxy = 25, shift_x = 0, shift_y = 0\<rparr>,
          mask = Some \<lparr>bool_mask = [[False, False], [False, False], [False, True]],
                       mask_shift_x = 0, mask_shift_y = 0,
                       mask_full_image_size = Some [5, 5]\<rparr>,
          category = \<lparr>category_id = 1, category_name = Some ''car''\<rparr>,
          shift_amount = [0, 0], full_image_size = Some [5, 5],
          prediction_score = \<lparr>score = Plain 0.5\<rparr>\<rparr>
   \<and> get_shifted_object_prediction
     \<lparr>bbox = \<lparr>minx = 0, miny = 0, maxx = 50, maxy = 50, shift_x = 200, shift_y = 300\<rparr>,
      mask = None,
      category = \<lparr>category_id = 3, category_name = None\<rparr>,
      shift_amount = [200, 300], full_image_size = Some [1000, 1200],
      prediction_score = \<lparr>score = Plain 0.9\<rparr>\<rparr> =
   Inr \<lparr>bbox = \<lparr>minx = 200, miny = 300, maxx = 250, maxy = 350, shift_x = 0, shift_y = 0\<rparr>,
          mask = None,
          category = \<lparr>category_id = 3, category_name = None\<rparr>,
          shift_amount = [0, 0], full_image_size = None,
          prediction_score = \<lparr>score = Plain 0.9\<rparr>\<rparr>"
  using shifted_resets_shift_amount
          [of "\<lparr>bbox = \<lparr>minx = 10, miny = 10, maxx = 20, maxy = 20, shift_x = 5, shift_y = 5\<rparr>,
      mask = Some \<lparr>bool_mask = [[True]], mask_shift_x = 1, mask_shift_y = 2,
                   mask_full_image_size = Some [5, 5]\<rparr>,
      category = \<lparr>category_id = 1, category_name = Some ''car''\<rparr>,
      shift_amount = [5, 5], full_image_size = Some [5, 5],
      prediction_score = \<lparr>score = Plain 0.5\<rparr>\<rparr>"]
        shifted_resets_shift_amount
          [of "\<lparr>bbox = \<lparr>minx = 0, miny = 0, maxx = 50, maxy = 50, shift_x = 200, shift_y = 300\<rparr>,
      mask = None,
      category = \<lparr>category_id = 3, category_name = None\<rparr>,
      shift_amount = [200, 300], full_image_size = Some [1000, 1200],
      prediction_score = \<lparr>score = Plain 0.9\<rparr>\<rparr>"]
  by (simp add: get_shifted_object_prediction_def ObjectPrediction_init_def
      ObjectAnnotation_init_def BoundingBox_init_def Mask_init_def to_voc_bbox_def
      get_shifted_box_def get_shifted_mask_def get_full_image_size_def translate_def
      mask_width_def PredictionScore_init_def ObjectAnnotation.extend_def
      ObjectPrediction.fields_def Let_def eval_nat_numeral)

text \<open>
  Claim C6. For every \<open>ObjectPrediction\<close>, the record that
  \<open>get_shifted_object_prediction\<close> returns has the score value, the category id and
  the category name of the original, and a mask exactly when the original has one. The
  score record itself is the original's whenever that holds a built-in number, as every
  constructed \<open>PredictionScore\<close> does.
\<close>

theorem shifted_carries_score_and_category:
  "\<exists>new. get_shifted_object_prediction self = Inr new
     \<and> num_val (score (prediction_score new)) = num_val (score (prediction_score self))
     \<and> (\<not> module_is_numpy (score (prediction_score self)) \<longrightarrow>
          prediction_score new = prediction_score self)
     \<and> category_id (category new) = category_id (category self)
     \<and> category_name (category new) = category_name (category self)
     \<and> (mask new = None) = (mask self = None)"
  by (simp add: shifted_eq score_init_val score_init_plain)

theorem shifted_carries_score_and_category_witness:
  "\<not> module_is_numpy (score (prediction_score
     \<lparr>bbox = \<lparr>minx = 10, miny = 10, maxx = 20, maxy = 20, shift_x = 5, shift_y = 5\<rparr>,
      mask = Some \<lparr>bool_mask = [[True]], mask_shift_x = 1, mask_shift_y = 2,
                   mask_full_image_size = Some [5, 5]\<rparr>,
      category = \<lparr>category_id = 1, category_name = Some ''car''\<rparr>,
      shift_amount = [5, 5], full_image_size = Some [5, 5],
      prediction_score = \<lparr>score = Plain 0.5\<rparr>\<rparr>))
   \<and> get_shifted_object_prediction
     \<lparr>bbox = \<lparr>minx = 10, miny = 10, maxx = 20, maxy = 20, shift_x = 5, shift_y = 5\<rparr>,
      mask = Some \<lparr>bool_mask = [[True]], mask_shift_x = 1, mask_shift_y = 2,
                   mask_full_image_size = Some [5, 5]\<rparr>,
      category = \<lparr>category_id = 1, category_name = Some ''car''\<rparr>,
      shift_amount = [5, 5], full_image_size = Some [5, 5],
      prediction_score = \<lparr>score = Plain 0.5\<rparr>\<rparr> =
   Inr \<lparr>bbox = \<lparr>minx = 15, miny = 15, maxx = 25, maxy = 25, shift_x = 0, shift_y = 0\<rparr>,
          mask = Some \<lparr>bool_mask = [[False, False], [False, False], [False, True]],
                       mask_shift_x = 0, mask_shift_y = 0,
                       mask_full_image_size = Some [5, 5]\<rparr>,
          category = \<lparr>category_id = 1, category_name = Some ''car''\<rparr>,
          shift_amount = [0, 0], full_image_size = Some [5, 5],
          prediction_score = \<lparr>score = Plain 0.5\<rparr>\<rparr>"
  using shifted_carries_score_and_category
          [of "\<lparr>bbox = \<lparr>minx = 10, miny = 10, maxx = 20, maxy = 20, shift_x = 5, shift_y = 5\<rparr>,
      mask = Some \<lparr>bool_mask = [[True]], mask_shift_x = 1, mask_shift_y = 2,
                   mask_full_image_size = Some [5, 5]\<rparr>,
      category = \<lparr>category_id = 1, category_name = Some ''car''\<rparr>,
      shift_amount = [5, 5], full_image_size = Some [5, 5],
      prediction_score = \<lparr>score = Plain 0.5\<rparr>\<rparr>"]
  by (simp add: get_shifted_object_prediction_def ObjectPrediction_init_def
      ObjectAnnotation_init_def BoundingBox_init_def Mask_init_def to_voc_bbox_def
      get_shifted_box_def get_shifted_mask_def get_full_image_size_def translate_def
      mask_width_def PredictionScore_init_def ObjectAnnotation.extend_def
      ObjectPrediction.fields_def Let_def eval_nat_numeral)

subsection \<open>The original record on the heap\<close>

lemmas heap_defs =
  heap_get_shifted_object_prediction_def heap_ObjectPrediction_def heap_ObjectAnnotation_init_def
  heap_PredictionScore_def heap_get_shifted_box_def heap_get_shifted_mask_def set_attrs_def
  get_attrs_def get_category_def get_mask_def get_box_def get_score_def attr_def bind_result_def
  deref_def alloc_def blank_prediction_def

lemmas load_defs =
  load_prediction_def bind_result_def attr_def get_attrs_def get_score_def get_box_def
  get_mask_def get_category_def deref_def

lemma load_elim:
  assumes "load_prediction h r = Inr self"
  obtains p sr br cr mv where
    "r < length h" "h ! r = PredictionObj p"
    "score_attr p = Some sr" "sr < length h" "h ! sr = ScoreObj (Some (score (prediction_score self)))"
    "bbox_attr p = Some br" "br < length h" "h ! br = BoxObj (bbox self)"
    "category_attr p = Some cr" "cr < length h" "h ! cr = CategoryObj (category self)"
    "mask_attr p = Some mv"
    "case mv of None \<Rightarrow> mask self = None
     | Some mr \<Rightarrow> mr < length h \<and> (\<exists>m. h ! mr = MaskObj m \<and> mask self = Some m)"
    "shift_amount_attr p = Some (shift_amount self)"
    "full_image_size_attr p = Some (full_image_size self)"
  using assms
  unfolding load_prediction_def bind_result_def attr_def get_attrs_def get_score_def get_box_def
    get_mask_def get_category_def deref_def
  by (auto split: sum.splits option.splits hobj.splits if_splits)

lemma shifted_heap_no_mask:
  assumes "r < length h" "h ! r = PredictionObj p"
    "score_attr p = Some sr" "sr < length h" "h ! sr = ScoreObj (Some v)"
    "bbox_attr p = Some br" "br < length h" "h ! br = BoxObj b"
    "category_attr p = Some cr" "cr < length h" "h ! cr = CategoryObj c"
    "mask_attr p = Some None"
  shows "heap_get_shifted_object_prediction h r =
     Inr (Suc (length h),
          h @ [BoxObj (get_shifted_box b),
               PredictionObj
                 \<lparr>score_attr = Some (length h + 2), bbox_attr = Some (length h + 3),
                  mask_attr = Some None, category_attr = Some (length h + 4),
                  shift_amount_attr = Some [0, 0], full_image_size_attr = Some None\<rparr>,
               ScoreObj (Some (score (PredictionScore_init v))),
               BoxObj (get_shifted_box b),
               CategoryObj c])"
  using assms
  by (simp add: heap_defs nth_append list_update_append BoundingBox_init_def to_voc_bbox_def
      get_shifted_box_def PredictionScore_init_def Let_def)

lemma shifted_heap_mask:
  assumes "r < length h" "h ! r = PredictionObj p"
    "score_attr p = Some sr" "sr < length h" "h ! sr = ScoreObj (Some v)"
    "bbox_attr p = Some br" "br < length h" "h ! br = BoxObj b"
    "category_attr p = Some cr" "cr < length h" "h ! cr = CategoryObj c"
    "mask_attr p = Some (Some mr)" "mr < length h" "h ! mr = MaskObj m"
  shows "heap_get_shifted_object_prediction h r =
     Inr (length h + 3,
          h @ [BoxObj (get_shifted_box b),
               MaskObj (get_shifted_mask m),
               MaskObj (get_shifted_mask m),
               PredictionObj
                 \<lparr>score_attr = Some (length h + 4), bbox_attr = Some (length h + 5),
                  mask_attr = Some (Some (length h + 6)), category_attr = Some (length h + 7),
                  shift_amount_attr = Some [0, 0],
                  full_image_size_attr = Some (get_full_image_size (get_shifted_mask m))\<rparr>,
               ScoreObj (Some (score (PredictionScore_init v))),
               BoxObj (get_shifted_box b),
               MaskObj (get_shifted_mask m),
               CategoryObj c])"
  using assms
  by (simp add: heap_defs nth_append list_update_append BoundingBox_init_def Mask_init_def
      to_voc_bbox_def get_shifted_box_def get_shifted_mask_def get_full_image_size_def
      PredictionScore_init_def Let_def)

lemma load_append:
  assumes "load_prediction h r = Inr self"
  shows "load_prediction (h @ ys) r = Inr self"
proof -
  from assms obtain p sr br cr mv where f:
    "r < length h" "h ! r = PredictionObj p"
    "score_attr p = Some sr" "sr < length h" "h ! sr = ScoreObj (Some (score (prediction_score self)))"
    "bbox_attr p = Some br" "br < length h" "h ! br = BoxObj (bbox self)"
    "category_attr p = Some cr" "cr < length h" "h ! cr = CategoryObj (category self)"
    "mask_attr p = Some mv"
    "case mv of None \<Rightarrow> mask self = None
     | Some mr \<Rightarrow> mr < length h \<and> (\<exists>m. h ! mr = MaskObj m \<and> mask self = Some m)"
    "shift_amount_attr p = Some (shift_amount self)"
    "full_image_size_attr p = Some (full_image_size self)"
    by (rule load_elim)
  show ?thesis
    using f
    by (cases mv)
       (auto simp: load_prediction_def bind_result_def attr_def get_attrs_def get_score_def
          get_box_def get_mask_def get_category_def deref_def nth_append)
qed

text \<open>
  Claim C7. Let \<open>r\<close> refer to an \<open>ObjectPrediction\<close> whose record is \<open>self\<close>. Then
  \<open>get_shifted_object_prediction\<close> returns, and the heap it leaves agrees with the heap
  before the call on every object that existed then: box, mask, score, category,
  \<open>shift_amount\<close> and \<open>full_image_size\<close> of the original are what they were, and
  \<open>r\<close> still holds the record \<open>self\<close>. The reference returned is new, the object
  behind it is a new \<open>ObjectPrediction\<close> all of whose score, box, mask and category
  references are new as well, and the record it holds is the shifted record.
\<close>

theorem shifted_leaves_original:
  assumes "load_prediction h r = Inr self"
  shows "\<exists>r' h' p'. heap_get_shifted_object_prediction h r = Inr (r', h')
     \<and> take (length h) h' = h
     \<and> load_prediction h' r = Inr self
     \<and> length h \<le> r' \<and> r' < length h' \<and> h' ! r' = PredictionObj p'
     \<and> list_all (\<lambda>a. length h \<le> a \<and> a < length h') (attr_refs p')
     \<and> load_prediction h' r' = get_shifted_object_prediction self"
proof -
  from assms obtain p sr br cr mv where f:
    "r < length h" "h ! r = PredictionObj p"
    "score_attr p = Some sr" "sr < length h" "h ! sr = ScoreObj (Some (score (prediction_score self)))"
    "bbox_attr p = Some br" "br < length h" "h ! br = BoxObj (bbox self)"
    "category_attr p = Some cr" "cr < length h" "h ! cr = CategoryObj (category self)"
    "mask_attr p = Some mv"
    and mv: "case mv of None \<Rightarrow> mask self = None
     | Some mr \<Rightarrow> mr < length h \<and> (\<exists>m. h ! mr = MaskObj m \<and> mask self = Some m)"
    by (rule load_elim)
  show ?thesis
  proof (cases mv)
    case None
    with mv have nomask: "mask self = None" by simp
    let ?news = "[BoxObj (get_shifted_box (bbox self)),
               PredictionObj
                 \<lparr>score_attr = Some (length h + 2), bbox_attr = Some (length h + 3),
                  mask_attr = Some None, category_attr = Some (length h + 4),
                  shift_amount_attr = Some [0, 0], full_image_size_attr = Some None\<rparr>,
               ScoreObj (Some (score (PredictionScore_init (score (prediction_score self))))),
               BoxObj (get_shifted_box (bbox self)),
               CategoryObj (category self)]"
    have run: "heap_get_shifted_object_prediction h r = Inr (Suc (length h), h @ ?news)"
      using f None by (intro shifted_heap_no_mask) simp_all
    have old: "load_prediction (h @ ?news) r = Inr self"
      using assms by (rule load_append)
    have new: "load_prediction (h @ ?news) (Suc (length h)) = get_shifted_object_prediction self"
      by (simp add: load_defs nth_append shifted_eq nomask)
    show ?thesis
      unfolding run using old new by (simp add: nth_append attr_refs_def)
  next
    case (Some mr)
    with mv obtain m where m: "mr < length h" "h ! mr = MaskObj m" "mask self = Some m" by auto
    let ?news = "[BoxObj (get_shifted_box (bbox self)),
               MaskObj (get_shifted_mask m),
               MaskObj (get_shifted_mask m),
               PredictionObj
                 \<lparr>score_attr = Some (length h + 4), bbox_attr = Some (length h + 5),
                  mask_attr = Some (Some (length h + 6)), category_attr = Some (length h + 7),
                  shift_amount_attr = Some [0, 0],
                  full_image_size_attr = Some (get_full_image_size (get_shifted_mask m))\<rparr>,
               ScoreObj (Some (score (PredictionScore_init (score (prediction_score self))))),
               BoxObj (get_shifted_box (bbox self)),
               MaskObj (get_shifted_mask m),
               CategoryObj (category self)]"
    have run: "heap_get_shifted_object_prediction h r = Inr (length h + 3, h @ ?news)"
      using f Some m by (intro shifted_heap_mask) simp_all
    have old: "load_prediction (h @ ?news) r = Inr self"
      using assms by (rule load_append)
    have new: "load_prediction (h @ ?news) (length h + 3) = get_shifted_object_prediction self"
      by (simp add: load_defs nth_append shifted_eq m)
    show ?thesis
      unfolding run using old new by (simp add: nth_append attr_refs_def)
  qed
qed

text \<open>
  A record with a mask at reference 4, its score, box, mask and category at references
  0 to 3: the call appends eight objects and returns reference 8.
\<close>

theorem shifted_leaves_original_witness:
  "load_prediction
     [ScoreObj (Some (Plain 0.5)),
      BoxObj \<lparr>minx = 10, miny = 10, maxx = 20, maxy = 20, shift_x = 1, shift_y = 2\<rparr>,
      MaskObj \<lparr>bool_mask = [[True]], mask_shift_x = 1, mask_shift_y = 2,
               mask_full_image_size = Some [40, 40]\<rparr>,
      CategoryObj \<lparr>category_id = 1, category_name = Some ''car''\<rparr>,
      PredictionObj
        \<lparr>score_attr = Some 0, bbox_attr = Some 1, mask_attr = Some (Some 2),
         category_attr = Some 3, shift_amount_attr = Some [1, 2],
         full_image_size_attr = Some (Some [40, 40])\<rparr>] 4 =
   Inr \<lparr>bbox = \<lparr>minx = 10, miny = 10, maxx = 20, maxy = 20, shift_x = 1, shift_y = 2\<rparr>,
        mask = Some \<lparr>bool_mask = [[True]], mask_shift_x = 1, mask_shift_y = 2,
                     mask_full_image_size = Some [40, 40]\<rparr>,
        category = \<lparr>category_id = 1, category_name = Some ''car''\<rparr>,
        shift_amount = [1, 2], full_image_size = Some [40, 40],
        prediction_score = \<lparr>score = Plain 0.5\<rparr>\<rparr>
   \<and> heap_get_shifted_object_prediction
     [ScoreObj (Some (Plain 0.5)),
      BoxObj \<lparr>minx = 10, miny = 10, maxx = 20, maxy = 20, shift_x = 1, shift_y = 2\<rparr>,
      MaskObj \<lparr>bool_mask = [[True]], mask_shift_x = 1, mask_shift_y = 2,
               mask_full_image_size = Some [40, 40]\<rparr>,
      CategoryObj \<lparr>category_id = 1, category_name = Some ''car''\<rparr>,
      PredictionObj
        \<lparr>score_attr = Some 0, bbox_attr = Some 1, mask_attr = Some (Some 2),
         category_attr = Some 3, shift_amount_attr = Some [1, 2],
         full_image_size_attr = Some (Some [40, 40])\<rparr>] 4 =
   Inr (8,
     [ScoreObj (Some (Plain 0.5)),
      BoxObj \<lparr>minx = 10, miny = 10, maxx = 20, maxy = 20, shift_x = 1, shift_y = 2\<rparr>,
      MaskObj \<lparr>bool_mask = [[True]], mask_shift_x = 1, mask_shift_y = 2,
               mask_full_image_size = Some [40, 40]\<rparr>,
      CategoryObj \<lparr>category_id = 1, category_name = Some ''car''\<rparr>,
      PredictionObj
        \<lparr>score_attr = Some 0, bbox_attr = Some 1, mask_attr = Some (Some 2),
         category_attr = Some 3, shift_amount_attr = Some [1, 2],
         full_image_size_attr = Some (Some [40, 40])\<rparr>,
      BoxObj \<lparr>minx = 11, miny = 12, maxx = 21, maxy = 22, shift_x = 0, shift_y = 0\<rparr>,
      MaskObj \<lparr>bool_mask = [[False, False], [False, False], [False, True]],
               mask_shift_x = 0, mask_shift_y = 0, mask_full_image_size = Some [40, 40]\<rparr>,
      MaskObj \<lparr>bool_mask = [[False, False], [False, False], [False, True]],
               mask_shift_x = 0, mask_shift_y = 0, mask_full_image_size = Some [40, 40]\<rparr>,
      PredictionObj
        \<lparr>score_attr = Some 9, bbox_attr = Some 10, mask_attr = Some (Some 11),
         category_attr = Some 12, shift_amount_attr = Some [0, 0],
         full_image_size_attr = Some (Some [40, 40])\<rparr>,
      ScoreObj (Some (Plain 0.5)),
      BoxObj \<lparr>minx = 11, miny = 12, maxx = 21, maxy = 22, shift_x = 0, shift_y = 0\<rparr>,
      MaskObj \<lparr>bool_mask = [[False, False], [False, False], [False, True]],
               mask_shift_x = 0, mask_shift_y = 0, mask_full_image_size = Some [40, 40]\<rparr>,
      CategoryObj \<lparr>category_id = 1, category_name = Some ''car''\<rparr>])
   \<and> load_prediction
     [ScoreObj (Some (Plain 0.5)),
      BoxObj \<lparr>minx = 10, miny = 10, maxx = 20, maxy = 20, shift_x = 1, shift_y = 2\<rparr>,
      MaskObj \<lparr>bool_mask = [[True]], mask_shift_x = 1, mask_shift_y = 2,
               mask_full_image_size = Some [40, 40]\<rparr>,
      CategoryObj \<lparr>category_id = 1, category_name = Some ''car''\<rparr>,
      PredictionObj
        \<lparr>score_attr = Some 0, bbox_attr = Some 1, mask_attr = Some (Some 2),
         category_attr = Some 3, shift_amount_attr = Some [1, 2],
         full_image_size_attr = Some (Some [40, 40])\<rparr>,
      BoxObj \<lparr>minx = 11, miny = 12, maxx = 21, maxy = 22, shift_x = 0, shift_y = 0\<rparr>,
      MaskObj \<lparr>bool_mask = [[False, False], [False, False], [False, True]],
               mask_shift_x = 0, mask_shift_y = 0, mask_full_image_size = Some [40, 40]\<rparr>,
      MaskObj \<lparr>bool_mask = [[False, False], [False, False], [False, True]],
               mask_shift_x = 0, mask_shift_y = 0, mask_full_image_size = Some [40, 40]\<rparr>,
      PredictionObj
        \<lparr>score_attr = Some 9, bbox_attr = Some 10, mask_attr = Some (Some 11),
         category_attr = Some 12, shift_amount_attr = Some [0, 0],
         full_image_size_attr = Some (Some [40, 40])\<rparr>,
      ScoreObj (Some (Plain 0.5)),
      BoxObj \<lparr>minx = 11, miny = 12, maxx = 21, maxy = 22, shift_x = 0, shift_y = 0\<rparr>,
      MaskObj \<lparr>bool_mask = [[False, False], [False, False], [False, True]],
               mask_shift_x = 0, mask_shift_y = 0, mask_full_image_size = Some [40, 40]\<rparr>,
      CategoryObj \<lparr>category_id = 1, category_name = Some ''car''\<rparr>] 4 =
   Inr \<lparr>bbox = \<lparr>minx = 10, miny = 10, maxx = 20, maxy = 20, shift_x = 1, shift_y = 2\<rparr>,
        mask = Some \<lparr>bool_mask = [[True]], mask_shift_x = 1, mask_shift_y = 2,
                     mask_full_image_size = Some [40, 40]\<rparr>,
        category = \<lparr>category_id = 1, category_name = Some ''car''\<rparr>,
        shift_amount = [1, 2], full_image_size = Some [40, 40],
        prediction_score = \<lparr>score = Plain 0.5\<rparr>\<rparr>"
proof -
  have before: "load_prediction
     [ScoreObj (Some (Plain 0.5)),
      BoxObj \<lparr>minx = 10, miny = 10, maxx = 20, maxy = 20, shift_x = 1, shift_y = 2\<rparr>,
      MaskObj \<lparr>bool_mask = [[True]], mask_shift_x = 1, mask_shift_y = 2,
               mask_full_image_size = Some [40, 40]\<rparr>,
      CategoryObj \<lparr>category_id = 1, category_name = Some ''car''\<rparr>,
      PredictionObj
        \<lparr>score_attr = Some 0, bbox_attr = Some 1, mask_attr = Some (Some 2),
         category_attr = Some 3, shift_amount_attr = Some [1, 2],
         full_image_size_attr = Some (Some [40, 40])\<rparr>] 4 =
   Inr \<lparr>bbox = \<lparr>minx = 10, miny = 10, maxx = 20, maxy = 20, shift_x = 1, shift_y = 2\<rparr>,
        mask = Some \<lparr>bool_mask = [[True]], mask_shift_x = 1, mask_shift_y = 2,
                     mask_full_image_size = Some [40, 40]\<rparr>,
        category = \<lparr>category_id = 1, category_name = Some ''car''\<rparr>,
        shift_amount = [1, 2], full_image_size = Some [40, 40],
        prediction_score = \<lparr>score = Plain 0.5\<rparr>\<rparr>"
    by code_simp
  have run: "heap_get_shifted_object_prediction
     [ScoreObj (Some (Plain 0.5)),
      BoxObj \<lparr>minx = 10, miny = 10, maxx = 20, maxy = 20, shift_x = 1, shift_y = 2\<rparr>,
      MaskObj \<lparr>bool_mask = [[True]], mask_shift_x = 1, mask_shift_y = 2,
               mask_full_image_size = Some [40, 40]\<rparr>,
      CategoryObj \<lparr>category_id = 1, category_name = Some ''car''\<rparr>,
      PredictionObj
        \<lparr>score_attr = Some 0, bbox_attr = Some 1, mask_attr = Some (Some 2),
         category_attr = Some 3, shift_amount_attr = Some [1, 2],
         full_image_size_attr = Some (Some [40, 40])\<rparr>] 4 =
   Inr (8,
     [ScoreObj (Some (Plain 0.5)),
      BoxObj \<lparr>minx = 10, miny = 10, maxx = 20, maxy = 20, shift_x = 1, shift_y = 2\<rparr>,
      MaskObj \<lparr>bool_mask = [[True]], mask_shift_x = 1, mask_shift_y = 2,
               mask_full_image_size = Some [40, 40]\<rparr>,
      CategoryObj \<lparr>category_id = 1, category_name = Some ''car''\<rparr>,
      PredictionObj
        \<lparr>score_attr = Some 0, bbox_attr = Some 1, mask_attr = Some (Some 2),
         category_attr = Some 3, shift_amount_attr = Some [1, 2],
         full_image_size_attr = Some (Some [40, 40])\<rparr>,
      BoxObj \<lparr>minx = 11, miny = 12, maxx = 21, maxy = 22, shift_x = 0, shift_y = 0\<rparr>,
      MaskObj \<lparr>bool_mask = [[False, False], [False, False], [False, True]],
               mask_shift_x = 0, mask_shift_y = 0, mask_full_image_size = Some [40, 40]\<rparr>,
      MaskObj \<lparr>bool_mask = [[False, False], [False, False], [False, True]],
               mask_shift_x = 0, mask_shift_y = 0, mask_full_image_size = Some [40, 40]\<rparr>,
      PredictionObj
        \<lparr>score_attr = Some 9, bbox_attr = Some 10, mask_attr = Some (Some 11),
         category_attr = Some 12, shift_amount_attr = Some [0, 0],
         full_image_size_attr = Some (Some [40, 40])\<rparr>,
      ScoreObj (Some (Plain 0.5)),
      BoxObj \<lparr>minx = 11, miny = 12, maxx = 21, maxy = 22, shift_x = 0, shift_y = 0\<rparr>,
      MaskObj \<lparr>bool_mask = [[False, False], [False, False], [False, True]],
               mask_shift_x = 0, mask_shift_y = 0, mask_full_image_size = Some [40, 40]\<rparr>,
      CategoryObj \<lparr>category_id = 1, category_name = Some ''car''\<rparr>])"
    by code_simp
  from shifted_leaves_original [OF before] run show ?thesis
    using before by auto
qed

end
